theory Spec2Isabelle
  imports Complex_Main "HOL-Library.Word"
begin

section \<open>The dashboard page (frontend/src/app/page.tsx): state and handlers\<close>

text \<open>
  The component \<open>Home\<close> holds eleven \<open>useState\<close> cells and changes them from event
  handlers and from the continuations of its \<open>fetch\<close> calls. Every handler is embedded
  as a function on the record of the cells. An \<open>async\<close> function is split where it
  awaits the network: the part before the first \<open>await\<close> returns the new state and the
  request it issues, and the part after the last \<open>await\<close> is a function of the outcome
  of the request and of the state at the time the outcome arrives. Between its awaits no
  handler of this file reads or writes a cell, so the continuation is one atomic step.
  What a closure captured when the request was issued (the \<open>selected\<close> of that render) is
  an explicit argument of the continuation.
\<close>

subsection \<open>JavaScript strings\<close>

text \<open>
  A JavaScript string is a sequence of UTF-16 code units: \<open>slice\<close> and indexing count
  code units. \<open>js\<close> turns a literal of this file, whose characters are all ASCII, into
  the string of the same characters.
\<close>

type_synonym jstring = "16 word list"

definition js :: "string \<Rightarrow> jstring" where
  "js s = map (\<lambda>c. of_nat (of_char c)) s"

subsection \<open>JavaScript values\<close>

text \<open>
  The bodies of the responses are typed \<open>any\<close>: whatever \<open>res.json()\<close> returns. The code
  guards its reads (\<open>Array.isArray\<close>, \<open>?.\<close>, \<open>||\<close>), so the values are modelled in
  full. \<open>JUndefined\<close> is the value of a missing property. An object is the list of its
  own properties (the first entry for a key is the property).
\<close>

datatype jsval =
    JUndefined
  | JNull
  | JBool bool
  | JNum rat
  | JStr jstring
  | JArr "jsval list"
  | JObj "(jstring \<times> jsval) list"

text \<open>Truthiness, as \<open>!x\<close>, \<open>x || y\<close> and \<open>x && y\<close> decide it.\<close>

fun truthy :: "jsval \<Rightarrow> bool" where
  "truthy JUndefined = False"
| "truthy JNull = False"
| "truthy (JBool b) = b"
| "truthy (JNum n) = (n \<noteq> 0)"
| "truthy (JStr s) = (s \<noteq> [])"
| "truthy (JArr xs) = True"
| "truthy (JObj kvs) = True"

text \<open>\<open>x || d\<close>\<close>

definition or_else :: "jsval \<Rightarrow> jsval \<Rightarrow> jsval" where
  "or_else x d = (if truthy x then x else d)"

text \<open>
  \<open>x.k\<close> for the property names the page reads from response bodies
  (\<open>site_bundle_id\<close>, \<open>commits\<close>, \<open>answer\<close>, \<open>citations\<close>, \<open>url\<close>,
  \<open>planning_reference\<close>): none of them is a built-in property of a string, a number, a
  boolean or an array, so only an object can hold one. The read throws on \<open>null\<close> and
  \<open>undefined\<close>; callers handle those two before they call \<open>field\<close>.
\<close>

fun field :: "jsval \<Rightarrow> string \<Rightarrow> jsval" where
  "field (JObj kvs) k = (case map_of kvs (js k) of Some v \<Rightarrow> v | None \<Rightarrow> JUndefined)"
| "field x k = JUndefined"

text \<open>\<open>x?.[0]\<close>: the first element of an array, the first code unit of a string, the
  property \<open>"0"\<close> of an object, \<open>undefined\<close> otherwise.\<close>

fun index0 :: "jsval \<Rightarrow> jsval" where
  "index0 (JArr (x # xs)) = x"
| "index0 (JStr (c # cs)) = JStr [c]"
| "index0 (JObj kvs) = field (JObj kvs) ''0''"
| "index0 x = JUndefined"

text \<open>\<open>data?.[0]?.site_bundle_id\<close>\<close>

definition first_id :: "jsval \<Rightarrow> jsval" where
  "first_id data = field (index0 data) ''site_bundle_id''"

text \<open>
  A thrown value. Everything the page catches is an \<open>Error\<close> object (the \<open>TypeError\<close> of
  a failed \<open>fetch\<close>, the \<open>SyntaxError\<close> of \<open>res.json()\<close>, the \<open>Error\<close> the page throws
  itself). \<open>err_text e\<close> is \<open>e?.message || e\<close> inside a template literal: the message, or
  \<open>String(e)\<close>, which for an empty message is the error's name.
\<close>

datatype js_error = JsError (err_name: jstring) (err_message: jstring)

definition err_text :: "js_error \<Rightarrow> jstring" where
  "err_text e = (if err_message e \<noteq> [] then err_message e else err_name e)"

text \<open>\<open>new Error(msg)\<close>\<close>

definition Error :: "jstring \<Rightarrow> js_error" where
  "Error msg = JsError (js ''Error'') msg"

text \<open>Reading property \<open>k\<close> of \<open>null\<close> (the message is V8's).\<close>

definition null_read :: "string \<Rightarrow> js_error" where
  "null_read k = JsError (js ''TypeError'')
     (js (''Cannot read properties of null (reading '' @ [CHR 0x27] @ k @ [CHR 0x27] @ '')''))"

subsection \<open>Numbers\<close>

text \<open>Decimal digits of a natural number, as a template literal prints \<open>res.status\<close>.\<close>

definition digit_char :: "nat \<Rightarrow> char" where
  "digit_char d = char_of (48 + d)"

fun show_nat :: "nat \<Rightarrow> string" where
  "show_nat n = (if n < 10 then [digit_char n] else show_nat (n div 10) @ [digit_char (n mod 10)])"

declare show_nat.simps [simp del]

text \<open>
  The Number held in \<open>minApps\<close>. \<open>parseInt\<close> returns \<open>NaN\<close>, an infinity, \<open>-0\<close> or an
  integer that is a double; \<open>Fin i\<close> is the double whose value is the integer \<open>i\<close>.
  Equality of this type is \<open>Object.is\<close>, which the dependency check of an effect uses.
\<close>

datatype jsnum = NaN | PosInfinity | NegInfinity | NegZero | Fin int

text \<open>
  The double nearest to a natural number, ties to the even significand; \<open>None\<close> when
  the number rounds beyond the largest double (then the Number is an infinity). A
  double has 53 significant bits and the largest is below \<open>2^1024\<close>.
\<close>

fun bit_len :: "nat \<Rightarrow> nat" where
  "bit_len n = (if n = 0 then 0 else Suc (bit_len (n div 2)))"

declare bit_len.simps [simp del]

definition nearest_double :: "nat \<Rightarrow> nat option" where
  "nearest_double n =
     (let k = bit_len n in
      if k \<le> 53 then Some n
      else (let sh = k - 53; q = n div 2 ^ sh; r = n mod 2 ^ sh; h = 2 ^ (sh - 1);
                q' = (if h < r \<or> (r = h \<and> odd q) then q + 1 else q);
                m = q' * 2 ^ sh
            in if 2 ^ 1024 \<le> m then None else Some m))"

text \<open>
  \<open>parseInt(s)\<close> with no radix: skip leading white space (the code units of
  \<open>WhiteSpace\<close> and \<open>LineTerminator\<close>), read a sign, read a \<open>0x\<close> prefix (radix 16,
  otherwise 10), take the longest prefix of digits of the radix; \<open>NaN\<close> when there is
  none, otherwise the Number for the value of the digits, rounded as above, with the
  sign. (For more than 20 significant decimal digits the standard lets an implementation
  approximate; V8 rounds correctly, which is what is written here.)
\<close>

definition is_ws :: "16 word \<Rightarrow> bool" where
  "is_ws c = (c \<in> set [0x0009, 0x000A, 0x000B, 0x000C, 0x000D, 0x0020, 0x00A0, 0x1680,
     0x2000, 0x2001, 0x2002, 0x2003, 0x2004, 0x2005, 0x2006, 0x2007, 0x2008, 0x2009, 0x200A,
     0x2028, 0x2029, 0x202F, 0x205F, 0x3000, 0xFEFF])"

definition digit_of :: "nat \<Rightarrow> 16 word \<Rightarrow> nat option" where
  "digit_of radix c =
     (let n = unat c;
          v = (if 48 \<le> n \<and> n \<le> 57 then Some (n - 48)
               else if 97 \<le> n \<and> n \<le> 122 then Some (n - 87)
               else if 65 \<le> n \<and> n \<le> 90 then Some (n - 55)
               else None)
      in case v of Some d \<Rightarrow> (if d < radix then Some d else None) | None \<Rightarrow> None)"

fun digits_value :: "nat \<Rightarrow> nat \<Rightarrow> jstring \<Rightarrow> nat" where
  "digits_value radix acc [] = acc"
| "digits_value radix acc (c # cs) =
     (case digit_of radix c of
        Some d \<Rightarrow> digits_value radix (acc * radix + d) cs
      | None \<Rightarrow> acc)"

definition number_of :: "bool \<Rightarrow> nat \<Rightarrow> jsnum" where
  "number_of neg v =
     (if v = 0 then (if neg then NegZero else Fin 0)
      else case nearest_double v of
             None \<Rightarrow> (if neg then NegInfinity else PosInfinity)
           | Some m \<Rightarrow> Fin (if neg then - int m else int m))"

definition parseInt :: "jstring \<Rightarrow> jsnum" where
  "parseInt s =
     (let s1 = dropWhile is_ws s;
          neg = (s1 \<noteq> [] \<and> hd s1 = 0x2D);
          s2 = (if s1 \<noteq> [] \<and> (hd s1 = 0x2D \<or> hd s1 = 0x2B) then tl s1 else s1);
          hex = (take 2 s2 = js ''0x'' \<or> take 2 s2 = js ''0X'');
          radix = (if hex then 16 else 10);
          s3 = (if hex then drop 2 s2 else s2)
      in case s3 of
           [] \<Rightarrow> NaN
         | c # cs \<Rightarrow>
             (case digit_of radix c of
                None \<Rightarrow> NaN
              | Some d \<Rightarrow> number_of neg (digits_value radix 0 s3)))"

subsection \<open>The number field\<close>

text \<open>
  The minimum-activity field is an \<open>input\<close> of type \<open>number\<close> (line 195). The \<open>value\<close> of
  such a field is the text it holds when that text is a valid floating-point number of
  HTML (an optional \<open>-\<close>; digits, or a \<open>.\<close> with digits after it, or both; optionally an
  exponent, \<open>e\<close> or \<open>E\<close>, an optional sign and digits), and the empty string otherwise.
\<close>

definition is_digit :: "16 word \<Rightarrow> bool" where
  "is_digit c = (0x30 \<le> c \<and> c \<le> 0x39)"

definition valid_float :: "jstring \<Rightarrow> bool" where
  "valid_float t =
     (let a = (if t \<noteq> [] \<and> hd t = 0x2D then tl t else t);
          ip = takeWhile is_digit a;
          b = dropWhile is_digit a;
          frac = (b \<noteq> [] \<and> hd b = 0x2E);
          fp = (if frac then takeWhile is_digit (tl b) else []);
          c = (if frac then dropWhile is_digit (tl b) else b);
          expo = (c \<noteq> [] \<and> (hd c = 0x65 \<or> hd c = 0x45));
          d = (if expo then tl c else c);
          e = (if expo \<and> d \<noteq> [] \<and> (hd d = 0x2D \<or> hd d = 0x2B) then tl d else d)
      in (if frac then fp \<noteq> [] else ip \<noteq> [])
         \<and> (if expo then e \<noteq> [] \<and> list_all is_digit e else c = []))"

definition number_input_value :: "jstring \<Rightarrow> jstring" where
  "number_input_value t = (if valid_float t then t else [])"

subsection \<open>The state cells\<close>

datatype role = User | Assistant

text \<open>
  A transcript entry \<open>{ role, text, citations }\<close>. The user's entries and the
  introductory entry are built without a \<open>citations\<close> property (\<open>JUndefined\<close> here).
  The text of an assistant entry is \<open>data.answer || "..."\<close>, any truthy value.
\<close>

record turn =
  role :: role
  turn_text :: jsval
  citations :: jsval

record state =
  council :: jstring
  q :: jstring
  minApps :: jsnum
  bundles :: "jsval list"
  selected :: jsval
  commits :: jsval
  overview :: jsval
  question :: jstring
  chat :: "turn list"
  loading :: bool
  err :: "jstring option"

text \<open>The initial values of the \<open>useState\<close> calls.\<close>

definition init_state :: state where
  "init_state = \<lparr> council = [], q = [], minApps = Fin 5, bundles = [], selected = JNull,
     commits = JArr [], overview = JNull, question = [], chat = [], loading = False,
     err = None \<rparr>"

subsection \<open>The network\<close>

text \<open>
  What \<open>await fetch(...)\<close> gives: a rejection (network error) or a response. Of a
  response the page reads \<open>ok\<close> and \<open>status\<close>, and awaits \<open>json()\<close> or \<open>text()\<close>,
  each of which returns a value or rejects.
\<close>

record response =
  status :: nat
  json_body :: "js_error + jsval"
  text_body :: "js_error + jstring"

datatype fetch_result = Rejected js_error | Response response

definition ok :: "response \<Rightarrow> bool" where
  "ok res = (200 \<le> status res \<and> status res \<le> 299)"

text \<open>
  The search parameters of the list request. \<open>p_min_apps\<close> is the Number of which the
  parameter is the \<open>String\<close>. The \<open>limit\<close> is fixed.
\<close>

record query =
  p_council :: "jstring option"
  p_q :: "jstring option"
  p_min_apps :: jsnum
  p_limit :: jstring

text \<open>
  A request in flight, with what its continuation closes over: the list loader's
  continuation reads the \<open>selected\<close> of the render that started it; the detail
  requests carry \<open>selected\<close> in their URLs; the chat request carries it in its body.
\<close>

datatype request =
    ListReq jsval query
  | DetailReq jsval
  | ChatReq jsval jstring

subsection \<open>The filter field and the list loader\<close>

text \<open>\<open>onChange={(e) => setMinApps(parseInt(e.target.value || "5"))}\<close>, for the
  value \<open>v\<close> of the field.\<close>

definition minApps_onChange :: "jstring \<Rightarrow> state \<Rightarrow> state" where
  "minApps_onChange v s = s\<lparr>minApps := parseInt (if v = [] then js ''5'' else v)\<rparr>"

text \<open>The handler when the field comes to hold the text \<open>t\<close>.\<close>

definition minApps_input :: "jstring \<Rightarrow> state \<Rightarrow> state" where
  "minApps_input t s = minApps_onChange (number_input_value t) s"

text \<open>The URL the list loader builds from the cells (lines 40 to 44).\<close>

definition bundles_url :: "state \<Rightarrow> query" where
  "bundles_url s = \<lparr> p_council = (if council s \<noteq> [] then Some (council s) else None),
     p_q = (if q s \<noteq> [] then Some (q s) else None),
     p_min_apps = minApps s,
     p_limit = js ''200'' \<rparr>"

text \<open>
  The \<open>try\<close> block of the list loader up to \<open>const data = await res.json()\<close>: the data,
  or what is thrown.
\<close>

definition bundles_fetched :: "fetch_result \<Rightarrow> js_error + jsval" where
  "bundles_fetched fr =
     (case fr of
        Rejected e \<Rightarrow> Inl e
      | Response res \<Rightarrow>
          if \<not> ok res then Inl (Error (js ''Bundles HTTP '' @ js (show_nat (status res))))
          else json_body res)"

text \<open>
  The rest of the list loader, run when the response has arrived. \<open>sel\<close> is the
  \<open>selected\<close> its closure holds, the value of the render in which the effect ran.
\<close>

definition bundles_settle :: "jsval \<Rightarrow> fetch_result \<Rightarrow> state \<Rightarrow> state" where
  "bundles_settle sel fr s =
     (case bundles_fetched fr of
        Inr data \<Rightarrow>
          (let s1 = s\<lparr>bundles := (case data of JArr xs \<Rightarrow> xs | _ \<Rightarrow> [])\<rparr>
           in if \<not> truthy sel \<and> truthy (first_id data)
              then s1\<lparr>selected := first_id data\<rparr> else s1)
      | Inl e \<Rightarrow>
          s\<lparr>err := Some (js ''Failed to load bundles: '' @ err_text e), bundles := []\<rparr>)"

subsection \<open>The detail loader\<close>

text \<open>
  \<open>Promise.all\<close> of the two fetches, then the checks and the two \<open>json()\<close> calls, up to
  the first \<open>set\<close> call, whose argument \<open>repoData.commits || []\<close> is evaluated inside
  the \<open>try\<close>. When both fetches reject, \<open>Promise.all\<close> rejects with the rejection that
  came first: \<open>second_first\<close> says that it was the overview's.
\<close>

definition detail_fetched :: "bool \<Rightarrow> fetch_result \<Rightarrow> fetch_result \<Rightarrow> js_error + (jsval \<times> jsval)" where
  "detail_fetched second_first f1 f2 =
     (case (f1, f2) of
        (Rejected e1, Rejected e2) \<Rightarrow> Inl (if second_first then e2 else e1)
      | (Rejected e1, Response r2) \<Rightarrow> Inl e1
      | (Response r1, Rejected e2) \<Rightarrow> Inl e2
      | (Response r1, Response r2) \<Rightarrow>
          if \<not> ok r1 then Inl (Error (js ''Repo HTTP '' @ js (show_nat (status r1))))
          else if \<not> ok r2 then Inl (Error (js ''Overview HTTP '' @ js (show_nat (status r2))))
          else (case json_body r1 of
                  Inl e \<Rightarrow> Inl e
                | Inr repoData \<Rightarrow>
                    (case json_body r2 of
                       Inl e \<Rightarrow> Inl e
                     | Inr ov \<Rightarrow>
                         if repoData = JNull \<or> repoData = JUndefined
                         then Inl (null_read ''commits'')
                         else Inr (repoData, ov))))"

text \<open>The text of the introductory entry; its three curly quotes are U+201C, U+201D
  and U+2019.\<close>

definition intro_text :: jstring where
  "intro_text = js ''Open a repo and ask me: '' @ [0x201C]
     @ js ''What changed recently and what should I do next?'' @ [0x201D]
     @ js '' I'' @ [0x2019] @ js ''ll cite commits so you can verify.''"

definition intro_turn :: turn where
  "intro_turn = \<lparr> role = Assistant, turn_text = JStr intro_text, citations = JUndefined \<rparr>"

text \<open>
  The continuation of the detail loader (lines 72 to 88). It takes no \<open>selected\<close>: after
  the \<open>await\<close> the source reads neither the captured nor the current selection.
\<close>

definition detail_settle :: "bool \<Rightarrow> fetch_result \<Rightarrow> fetch_result \<Rightarrow> state \<Rightarrow> state" where
  "detail_settle second_first f1 f2 s =
     (case detail_fetched second_first f1 f2 of
        Inr (repoData, ov) \<Rightarrow>
          s\<lparr>commits := or_else (field repoData ''commits'') (JArr []),
            overview := ov,
            chat := [intro_turn],
            question := []\<rparr>
      | Inl e \<Rightarrow>
          s\<lparr>err := Some (js ''Failed to load repo: '' @ err_text e),
            commits := JArr [],
            overview := JNull\<rparr>)"

subsection \<open>The chat\<close>

definition user_turn :: "jstring \<Rightarrow> turn" where
  "user_turn t = \<lparr> role = User, turn_text = JStr t, citations = JUndefined \<rparr>"

definition fallback_turn :: turn where
  "fallback_turn = \<lparr> role = Assistant,
     turn_text = JStr (js ''Chat is unavailable right now. Check backend /chat and GEMINI_API_KEY (optional).''),
     citations = JArr [] \<rparr>"

text \<open>
  \<open>ask(text)\<close> up to its \<open>await fetch\<close>: the new state and the request issued, if any.
  \<open>sel\<close> is the \<open>selected\<close> of the render whose \<open>ask\<close> is called.
\<close>

definition ask :: "jsval \<Rightarrow> jstring \<Rightarrow> state \<Rightarrow> state \<times> request option" where
  "ask sel t s =
     (if \<not> truthy sel then (s, None)
      else (s\<lparr>loading := True, err := None, chat := chat s @ [user_turn t]\<rparr>,
            Some (ChatReq sel t)))"

text \<open>The \<open>try\<close> block of \<open>ask\<close> up to \<open>const data = await res.json()\<close>: the data, or
  what is thrown. \<open>t.slice(0, 200)\<close> is the first 200 code units.\<close>

definition chat_fetched :: "fetch_result \<Rightarrow> js_error + jsval" where
  "chat_fetched fr =
     (case fr of
        Rejected e \<Rightarrow> Inl e
      | Response res \<Rightarrow>
          if \<not> ok res then
            (case text_body res of
               Inl e \<Rightarrow> Inl e
             | Inr t \<Rightarrow> Inl (Error (js ''Chat HTTP '' @ js (show_nat (status res)) @ js '': '' @ take 200 t)))
          else json_body res)"

text \<open>The entry \<open>{ role: "assistant", text: data.answer || "No answer returned.",
  citations: data.citations || [] }\<close>, for \<open>data\<close> that is not \<open>null\<close>.\<close>

definition answer_turn :: "jsval \<Rightarrow> turn" where
  "answer_turn data = \<lparr> role = Assistant,
     turn_text = or_else (field data ''answer'') (JStr (js ''No answer returned.'')),
     citations = or_else (field data ''citations'') (JArr []) \<rparr>"

text \<open>
  The updater \<open>(c) => [...c, { ... data.answer ... }]\<close> of line 112. React runs it
  when it renders, after \<open>ask\<close> has returned and outside its \<open>try\<close>: on \<open>null\<close> the
  read of \<open>data.answer\<close> throws there.
\<close>

definition append_answer :: "jsval \<Rightarrow> turn list \<Rightarrow> js_error + turn list" where
  "append_answer data c =
     (if data = JNull \<or> data = JUndefined then Inl (null_read ''answer'')
      else Inr (c @ [answer_turn data]))"

text \<open>
  The continuation of \<open>ask\<close> (lines 106 to 118), on the state the response finds, and
  the render that follows: the new state, or what the render throws. When the render
  throws, nothing catches it and React unmounts the page.
\<close>

definition ask_settle :: "fetch_result \<Rightarrow> state \<Rightarrow> js_error + state" where
  "ask_settle fr s =
     (case chat_fetched fr of
        Inr data \<Rightarrow>
          (case append_answer data (chat s) of
             Inl e \<Rightarrow> Inl e
           | Inr c \<Rightarrow> Inr (s\<lparr>chat := c, loading := False\<rparr>))
      | Inl e \<Rightarrow>
          Inr (s\<lparr>err := Some (js ''Chat failed: '' @ err_text e),
                 chat := chat s @ [fallback_turn],
                 loading := False\<rparr>))"





subsection \<open>Runs of the page\<close>

text \<open>
  The mounted page together with its requests in flight. An event is a handler called
  from the rendered page, or the arrival of the outcome of a request in flight. After
  every event React renders again and runs an effect when one of its dependencies
  changed: the list loader on \<open>[council, q, minApps]\<close>, the detail loader on
  \<open>[selected]\<close>. Both start with \<open>setErr(null)\<close>; the detail loader returns at once when
  \<open>selected\<close> is falsy. (Dependencies are compared with \<open>Object.is\<close>, which is equality
  on the strings and numbers compared here.) \<open>thrown\<close> holds what a render threw while
  applying the updates of an event: the page is unmounted then, the cells are those of
  the last render that succeeded, and a run ends. The voice and read-aloud buttons are
  left out, and so is what the JSX draws from the cells, the citation links apart.
\<close>

record world =
  st :: state
  inflight :: "request list"
  thrown :: "js_error option"

datatype outcome =
    One fetch_result
  | Two bool fetch_result fetch_result

datatype event =
    SetQ jstring
  | SetCouncil jstring
  | MinAppsInput jstring
  | ClickBundle nat
  | SetQuestion jstring
  | Ask jstring
  | Settle nat outcome

definition bundles_effect :: "world \<Rightarrow> world" where
  "bundles_effect w =
     w\<lparr> st := (st w)\<lparr>err := None\<rparr>,
        inflight := inflight w @ [ListReq (selected (st w)) (bundles_url (st w))] \<rparr>"

definition detail_effect :: "world \<Rightarrow> world" where
  "detail_effect w =
     (if \<not> truthy (selected (st w)) then w
      else w\<lparr> st := (st w)\<lparr>err := None\<rparr>,
              inflight := inflight w @ [DetailReq (selected (st w))] \<rparr>)"

text \<open>The effects after the render that follows a change from \<open>old\<close>.\<close>

definition effects :: "state \<Rightarrow> world \<Rightarrow> world" where
  "effects old w =
     (let w1 = (if (council old, q old, minApps old) \<noteq> (council (st w), q (st w), minApps (st w))
                then bundles_effect w else w)
      in if selected old \<noteq> selected (st w) then detail_effect w1 else w1)"

text \<open>The first render: both effects run, on the initial cells.\<close>

definition init_world :: world where
  "init_world = detail_effect (bundles_effect \<lparr> st = init_state, inflight = [], thrown = None \<rparr>)"

text \<open>Removing the request at a position.\<close>

definition remove_at :: "nat \<Rightarrow> 'a list \<Rightarrow> 'a list" where
  "remove_at i xs = take i xs @ drop (Suc i) xs"

text \<open>
  The handler of an event of the mounted page, before the render. \<open>MinAppsInput t\<close> is
  the number field coming to hold the text \<open>t\<close>; \<open>ClickBundle i\<close> is the button of the
  \<open>i\<close>-th displayed bundle, \<open>setSelected(b.site_bundle_id)\<close>; \<open>Ask t\<close> is a call of the
  current render's \<open>ask\<close>. An outcome arrives only for a request in flight, and takes
  it out.
\<close>

definition handle :: "event \<Rightarrow> world \<Rightarrow> world" where
  "handle e w =
     (case e of
        SetQ v \<Rightarrow> w\<lparr>st := (st w)\<lparr>q := v\<rparr>\<rparr>
      | SetCouncil v \<Rightarrow> w\<lparr>st := (st w)\<lparr>council := v\<rparr>\<rparr>
      | MinAppsInput t \<Rightarrow> w\<lparr>st := minApps_input t (st w)\<rparr>
      | ClickBundle i \<Rightarrow>
          (if i < length (bundles (st w))
           then w\<lparr>st := (st w)\<lparr>selected := field (bundles (st w) ! i) ''site_bundle_id''\<rparr>\<rparr>
           else w)
      | SetQuestion v \<Rightarrow> w\<lparr>st := (st w)\<lparr>question := v\<rparr>\<rparr>
      | Ask t \<Rightarrow>
          (case ask (selected (st w)) t (st w) of
             (s', None) \<Rightarrow> w\<lparr>st := s'\<rparr>
           | (s', Some r) \<Rightarrow> w\<lparr>st := s', inflight := inflight w @ [r]\<rparr>)
      | Settle i out \<Rightarrow>
          (if i < length (inflight w) then
             (case (inflight w ! i, out) of
                (ListReq sel u, One fr) \<Rightarrow>
                  w\<lparr>st := bundles_settle sel fr (st w), inflight := remove_at i (inflight w)\<rparr>
              | (DetailReq sel, Two b f1 f2) \<Rightarrow>
                  w\<lparr>st := detail_settle b f1 f2 (st w), inflight := remove_at i (inflight w)\<rparr>
              | (ChatReq sel t, One fr) \<Rightarrow>
                  (case ask_settle fr (st w) of
                     Inr s' \<Rightarrow> w\<lparr>st := s', inflight := remove_at i (inflight w)\<rparr>
                   | Inl x \<Rightarrow> w\<lparr>inflight := remove_at i (inflight w), thrown := Some x\<rparr>)
              | _ \<Rightarrow> w)
           else w))"

definition step :: "event \<Rightarrow> world \<Rightarrow> world" where
  "step e w = effects (st w) (handle e w)"

text \<open>A run: the events one after the other, up to the first render that throws.\<close>

fun run :: "event list \<Rightarrow> world \<Rightarrow> world" where
  "run [] w = w"
| "run (e # es) w = (if thrown w = None then run es (step e w) else w)"

text \<open>A \<open>200\<close> response with a JSON body, and a response with another status and a
  body that is not JSON, for the examples.\<close>

definition ok_json :: "jsval \<Rightarrow> fetch_result" where
  "ok_json v = Response \<lparr> status = 200, json_body = Inr v, text_body = Inr [] \<rparr>"

definition http_error :: "nat \<Rightarrow> string \<Rightarrow> fetch_result" where
  "http_error n body = Response \<lparr> status = n,
     json_body = Inl (JsError (js ''SyntaxError'') (js ''Unexpected token'')),
     text_body = Inr (js body) \<rparr>"


definition a_bundle :: "string \<Rightarrow> jsval" where
  "a_bundle i = JObj [(js ''site_bundle_id'', JStr (js i)), (js ''council_name'', JStr (js ''Camden'')),
     (js ''n_apps'', JNum 7)]"

subsection \<open>Failures, and the responses and runs of the examples\<close>

text \<open>A request that fails: a network error (the fetch rejects) or a status outside
  200 to 299.\<close>

definition failed :: "fetch_result \<Rightarrow> bool" where
  "failed fr = (case fr of Rejected e \<Rightarrow> True | Response res \<Rightarrow> \<not> ok res)"


definition net_error :: js_error where
  "net_error = JsError (js ''TypeError'') (js ''Failed to fetch'')"

definition repo_body :: "string \<Rightarrow> jsval" where
  "repo_body i = JObj [(js ''commits'', JArr [JStr (js (''commit of '' @ i))])]"

definition overview_body :: "string \<Rightarrow> jsval" where
  "overview_body i = JObj [(js ''stage'', JStr (js (''stage of '' @ i)))]"

definition detail_ok :: "string \<Rightarrow> outcome" where
  "detail_ok i = Two False (ok_json (repo_body i)) (ok_json (overview_body i))"

text \<open>
  The list arrives and selects \<open>A\<close>; the user picks \<open>B\<close> while the detail of \<open>A\<close> is in
  flight; the detail of \<open>B\<close> arrives. The requests for \<open>A\<close> are still in flight.
\<close>

definition race_events :: "event list" where
  "race_events =
     [Settle 0 (One (ok_json (JArr [a_bundle ''A'', a_bundle ''B'']))),
      ClickBundle 1,
      Settle 1 (detail_ok ''B'')]"

text \<open>
  A conversation about \<open>X\<close>, a draft typed into the question field, then the user picks
  \<open>Y\<close> and asks before the detail of \<open>Y\<close> has arrived.
\<close>

definition chat_body :: jsval where
  "chat_body = JObj [(js ''answer'', JStr (js ''reply''))]"

definition switch_events :: "event list" where
  "switch_events =
     [Settle 0 (One (ok_json (JArr [a_bundle ''X'', a_bundle ''Y'']))),
      Settle 0 (detail_ok ''X''),
      Ask (js ''first''),
      Settle 0 (One (ok_json chat_body)),
      SetQuestion (js ''draft''),
      ClickBundle 1,
      Ask (js ''second'')]"

text \<open>A list request started while \<open>A\<close> was selected: the list selects \<open>A\<close>, then the
  user types a search text.\<close>

definition refilter_events :: "event list" where
  "refilter_events =
     [Settle 0 (One (ok_json (JArr [a_bundle ''A'', a_bundle ''B'']))),
      SetQ (js ''a'')]"



section \<open>Lemmas shared by the claims\<close>

lemma unit_inject: "((of_nat (of_char a)) :: 16 word) = of_nat (of_char b) \<longleftrightarrow> a = b"
proof -
  have a: "(of_char a :: nat) < 2 ^ 16" and b: "(of_char b :: nat) < 2 ^ 16"
    by (rule less_trans [OF nat_of_char_less_256], simp)+
  have "unat (of_nat (of_char a) :: 16 word) = of_char a"
    and "unat (of_nat (of_char b) :: 16 word) = of_char b"
    using a b by (simp_all add: unat_of_nat take_bit_nat_eq_self)
  then show ?thesis by (metis of_char_eq_iff)
qed

lemma js_inject [simp]: "js a = js b \<longleftrightarrow> a = b"
  unfolding js_def by (rule inj_map_eq_map) (simp add: inj_on_def unit_inject)

lemma js_Nil [simp]: "js [] = []"
  by (simp add: js_def)

lemma js_eq_Nil [simp]: "js a = [] \<longleftrightarrow> a = []"
  by (simp add: js_def)

lemma Nil_eq_js [simp]: "[] = js a \<longleftrightarrow> a = []"
  by (simp add: js_def)

lemma take_js [simp]: "take n (js a) = js (take n a)"
  by (simp add: js_def take_map)

lemma js_append: "js (a @ b) = js a @ js b"
  by (simp add: js_def)

lemma js_append_assoc: "js a @ js b @ r = js (a @ b) @ r"
  by (simp add: js_def)

lemmas model_defs = init_world_def step_def handle_def effects_def bundles_effect_def
  detail_effect_def init_state_def bundles_settle_def bundles_fetched_def detail_settle_def
  detail_fetched_def ok_json_def http_error_def ok_def a_bundle_def first_id_def remove_at_def
  or_else_def bundles_url_def detail_ok_def repo_body_def overview_body_def ask_def
  ask_settle_def chat_fetched_def append_answer_def answer_turn_def chat_body_def

lemma parseInt_5: "parseInt (js ''5'') = Fin 5"
  by (simp add: parseInt_def js_def is_ws_def digit_of_def number_of_def nearest_double_def bit_len.simps)

lemma err_text_Error: "m \<noteq> [] \<Longrightarrow> err_text (Error m) = m"
  by (simp add: err_text_def Error_def)

lemma effects_same:
  "council (st w) = council old \<Longrightarrow> q (st w) = q old \<Longrightarrow> minApps (st w) = minApps old \<Longrightarrow>
   selected (st w) = selected old \<Longrightarrow> effects old w = w"
  by (simp add: effects_def)

lemma effects_keeps:
  "selected (st (effects old w)) = selected (st w) \<and> chat (st (effects old w)) = chat (st w)
   \<and> question (st (effects old w)) = question (st w)"
  by (simp add: effects_def bundles_effect_def detail_effect_def Let_def)

lemma detail_settle_frame:
  "council (detail_settle b f1 f2 s) = council s \<and> q (detail_settle b f1 f2 s) = q s \<and>
   minApps (detail_settle b f1 f2 s) = minApps s \<and> selected (detail_settle b f1 f2 s) = selected s"
  by (simp add: detail_settle_def split: sum.splits prod.splits)

lemma step_settle_detail:
  assumes "i < length (inflight w)" and "inflight w ! i = DetailReq a"
  shows "st (step (Settle i (Two b f1 f2)) w) = detail_settle b f1 f2 (st w)"
proof -
  have h: "handle (Settle i (Two b f1 f2)) w =
      w\<lparr> st := detail_settle b f1 f2 (st w), inflight := remove_at i (inflight w) \<rparr>"
    using assms by (simp add: handle_def)
  show ?thesis
    unfolding step_def h by (subst effects_same) (simp_all add: detail_settle_frame)
qed

lemma step_settle_list:
  assumes "i < length (inflight w)" and "inflight w ! i = ListReq sel u"
  shows "selected (st (step (Settle i (One fr)) w)) = selected (bundles_settle sel fr (st w))"
  using assms by (simp add: step_def handle_def effects_keeps)






lemma race_world:
  "inflight (run race_events init_world) = [DetailReq (JStr (js ''A''))]
   \<and> selected (st (run race_events init_world)) = JStr (js ''B'')
   \<and> commits (st (run race_events init_world)) = JArr [JStr (js ''commit of B'')]
   \<and> overview (st (run race_events init_world)) = JObj [(js ''stage'', JStr (js ''stage of B''))]"
  by (simp add: race_events_def model_defs)

section \<open>The claims\<close>

subsection \<open>C1: detail responses that arrive after the selection changed\<close>

text \<open>
  C1, as claimed: when the detail requests for \<open>A\<close> are in flight and the selection
  changes to \<open>B\<close>, the late responses for \<open>A\<close> are discarded, the displayed history and
  overview are those of \<open>B\<close> and the state is not changed. The run below refutes it:
  \<open>B\<close> is selected and its history and overview are displayed, the requests for \<open>A\<close>
  are still in flight, and when their responses arrive the history and the overview
  become those of \<open>A\<close> while \<open>B\<close> stays selected.
\<close>

theorem late_detail_response_counterexample:
  "inflight (run race_events init_world) = [DetailReq (JStr (js ''A''))]
   \<and> selected (st (run race_events init_world)) = JStr (js ''B'')
   \<and> commits (st (run race_events init_world)) = JArr [JStr (js ''commit of B'')]
   \<and> overview (st (run race_events init_world)) = JObj [(js ''stage'', JStr (js ''stage of B''))]
   \<and> selected (st (step (Settle 0 (detail_ok ''A'')) (run race_events init_world))) = JStr (js ''B'')
   \<and> commits (st (step (Settle 0 (detail_ok ''A'')) (run race_events init_world)))
        = JArr [JStr (js ''commit of A'')]
   \<and> overview (st (step (Settle 0 (detail_ok ''A'')) (run race_events init_world)))
        = JObj [(js ''stage'', JStr (js ''stage of A''))]"
  by (simp add: race_events_def model_defs)

text \<open>
  C1, amended: the responses to detail requests for \<open>A\<close> that arrive while another
  value is selected are applied like any others. The continuation compares nothing with
  the selection: when both requests succeeded, history and overview are replaced by the
  data of \<open>A\<close> and the selection stays what it was. What is displayed is the data of the
  responses that arrived last.
\<close>

theorem late_detail_response_applied:
  assumes "i < length (inflight w)" and "inflight w ! i = DetailReq a"
    and "selected (st w) \<noteq> a"
    and "detail_fetched b f1 f2 = Inr (repoData, ov)"
  shows "selected (st (step (Settle i (Two b f1 f2)) w)) = selected (st w)
       \<and> commits (st (step (Settle i (Two b f1 f2)) w)) = or_else (field repoData ''commits'') (JArr [])
       \<and> overview (st (step (Settle i (Two b f1 f2)) w)) = ov"
  using assms by (simp add: step_settle_detail detail_settle_def)

text \<open>The theorem of C1 at the run above, for the late responses for \<open>A\<close>.\<close>

theorem late_detail_response_applied_witness:
  "0 < length (inflight (run race_events init_world))
   \<and> inflight (run race_events init_world) ! 0 = DetailReq (JStr (js ''A''))
   \<and> selected (st (run race_events init_world)) \<noteq> JStr (js ''A'')
   \<and> detail_fetched False (ok_json (repo_body ''A'')) (ok_json (overview_body ''A''))
        = Inr (repo_body ''A'', overview_body ''A'')
   \<and> selected (st (step (Settle 0 (Two False (ok_json (repo_body ''A'')) (ok_json (overview_body ''A''))))
        (run race_events init_world))) = JStr (js ''B'')
   \<and> commits (st (step (Settle 0 (Two False (ok_json (repo_body ''A'')) (ok_json (overview_body ''A''))))
        (run race_events init_world))) = JArr [JStr (js ''commit of A'')]
   \<and> overview (st (step (Settle 0 (Two False (ok_json (repo_body ''A'')) (ok_json (overview_body ''A''))))
        (run race_events init_world))) = overview_body ''A''"
proof -
  have h1: "0 < length (inflight (run race_events init_world))" using race_world by simp
  have h2: "inflight (run race_events init_world) ! 0 = DetailReq (JStr (js ''A''))" using race_world by simp
  have h3: "selected (st (run race_events init_world)) \<noteq> JStr (js ''A'')" using race_world by simp
  have h4: "detail_fetched False (ok_json (repo_body ''A'')) (ok_json (overview_body ''A''))
        = Inr (repo_body ''A'', overview_body ''A'')"
    by (simp add: detail_fetched_def ok_json_def ok_def repo_body_def)
  have c: "or_else (field (repo_body ''A'') ''commits'') (JArr []) = JArr [JStr (js ''commit of A'')]"
    by (simp add: or_else_def repo_body_def)
  show ?thesis
    using h1 h2 h3 h4 c race_world late_detail_response_applied [OF h1 h2 h3 h4] by simp
qed

subsection \<open>C2: the minimum-activity field\<close>

text \<open>
  C2: when the minimum-activity field comes to hold a text that is not a number, such as
  \<open>abc\<close>, or the empty text, the value of the field is the empty string, the handler
  stores \<open>parseInt("5")\<close>, and the \<open>min_apps\<close> of the list URL built from the cells is
  the Number 5, whatever the threshold was before. When the threshold was not 5 already
  the change starts a list request, and that request carries 5.
\<close>

theorem minApps_non_numeric_default:
  assumes "\<not> valid_float t"
  shows "number_input_value t = []
       \<and> minApps (minApps_input t s) = Fin 5
       \<and> p_min_apps (bundles_url (minApps_input t s)) = Fin 5
       \<and> (minApps (st w) \<noteq> Fin 5 \<longrightarrow>
            inflight (step (MinAppsInput t) w)
              = inflight w @ [ListReq (selected (st w)) (bundles_url ((st w)\<lparr>minApps := Fin 5\<rparr>))])"
proof -
  have v: "number_input_value t = []"
    using assms by (simp add: number_input_value_def)
  have m: "minApps_input t s = s\<lparr>minApps := Fin 5\<rparr>" for s
    by (simp add: minApps_input_def minApps_onChange_def v parseInt_5)
  have r: "inflight (step (MinAppsInput t) w)
              = inflight w @ [ListReq (selected (st w)) (bundles_url ((st w)\<lparr>minApps := Fin 5\<rparr>))]"
    if "minApps (st w) \<noteq> Fin 5"
    using that by (simp add: step_def handle_def m effects_def bundles_effect_def)
  show ?thesis
    using v m r by (simp add: bundles_url_def)
qed

text \<open>The theorem of C2 for the text \<open>abc\<close> and for the empty text, at the first
  render and after the threshold had been set to 7.\<close>

theorem minApps_non_numeric_default_witness:
  "\<not> valid_float (js ''abc'') \<and> \<not> valid_float []
   \<and> number_input_value (js ''abc'') = []
   \<and> p_min_apps (bundles_url (minApps_input (js ''abc'') init_state)) = Fin 5
   \<and> p_min_apps (bundles_url (minApps_input [] init_state)) = Fin 5
   \<and> minApps (st (step (MinAppsInput (js ''7'')) init_world)) = Fin 7
   \<and> p_min_apps (bundles_url (minApps_input (js ''abc'') (st (step (MinAppsInput (js ''7'')) init_world)))) = Fin 5
   \<and> last (inflight (step (MinAppsInput (js ''abc'')) (step (MinAppsInput (js ''7'')) init_world)))
        = ListReq JNull \<lparr> p_council = None, p_q = None, p_min_apps = Fin 5, p_limit = js ''200'' \<rparr>"
proof -
  have a: "\<not> valid_float (js ''abc'')"
    by (simp add: valid_float_def js_def is_digit_def)
  have e: "\<not> valid_float []"
    by (simp add: valid_float_def)
  have p: "parseInt (js ''7'') = Fin 7"
    by (simp add: parseInt_def js_def is_ws_def digit_of_def number_of_def nearest_double_def bit_len.simps)
  have v: "valid_float (js ''7'')"
    by (simp add: valid_float_def js_def is_digit_def)
  have s: "st (step (MinAppsInput (js ''7'')) init_world) = init_state\<lparr>minApps := Fin 7\<rparr>"
    using p v by (simp add: model_defs minApps_input_def minApps_onChange_def number_input_value_def)
  have n: "minApps (st (step (MinAppsInput (js ''7'')) init_world)) \<noteq> Fin 5"
    by (simp add: s)
  show ?thesis
    using a e s n
      minApps_non_numeric_default [OF a, of init_state "step (MinAppsInput (js ''7'')) init_world"]
      minApps_non_numeric_default [OF a, of "st (step (MinAppsInput (js ''7'')) init_world)" init_world]
      minApps_non_numeric_default [OF e, of init_state init_world]
    by (simp add: bundles_url_def init_state_def)
qed

subsection \<open>C3: the default selection\<close>




subsection \<open>C4: the user's turn\<close>



subsection \<open>C5: the transcript when the selection changes\<close>

text \<open>
  C5, as claimed: changing the selection from \<open>X\<close> to \<open>Y\<close> resets the transcript to the
  one introductory turn and clears the question field before any chat exchange for
  \<open>Y\<close>. The run below refutes it: after a conversation about \<open>X\<close> and a draft in the
  question field the user picks \<open>Y\<close> and asks. \<open>Y\<close> is selected, the chat request for
  \<open>Y\<close> is in flight, the transcript is the conversation about \<open>X\<close> with the new question
  appended, and the draft is still in the field.
\<close>

theorem selection_change_counterexample:
  "selected (st (run switch_events init_world)) = JStr (js ''Y'')
   \<and> inflight (run switch_events init_world)
        = [DetailReq (JStr (js ''Y'')), ChatReq (JStr (js ''Y'')) (js ''second'')]
   \<and> chat (st (run switch_events init_world))
        = [intro_turn, user_turn (js ''first''), answer_turn chat_body, user_turn (js ''second'')]
   \<and> question (st (run switch_events init_world)) = js ''draft''"
  by (simp add: switch_events_def model_defs)

text \<open>
  C5, amended: the transcript is reset to the one introductory assistant turn, and the
  question field cleared, when the detail responses for a selection have arrived and
  both succeeded. Picking a bundle changes neither by itself, and a failed detail load
  leaves both as they were.
\<close>

theorem transcript_reset_on_joint_success:
  "(detail_fetched b f1 f2 = Inr (repoData, ov) \<longrightarrow>
       chat (detail_settle b f1 f2 s) = [intro_turn] \<and> question (detail_settle b f1 f2 s) = []
       \<and> role intro_turn = Assistant)
   \<and> (detail_fetched b f1 f2 = Inl e \<longrightarrow>
       chat (detail_settle b f1 f2 s) = chat s \<and> question (detail_settle b f1 f2 s) = question s)
   \<and> chat (st (step (ClickBundle i) w)) = chat (st w)
   \<and> question (st (step (ClickBundle i) w)) = question (st w)"
  by (simp add: detail_settle_def step_def effects_keeps handle_def intro_turn_def)

text \<open>The theorem of C5 at the end of the run above: the detail of \<open>Y\<close> arrives, or
  its history request fails with status 500.\<close>

theorem transcript_reset_on_joint_success_witness:
  "detail_fetched False (ok_json (repo_body ''Y'')) (ok_json (overview_body ''Y''))
      = Inr (repo_body ''Y'', overview_body ''Y'')
   \<and> chat (detail_settle False (ok_json (repo_body ''Y'')) (ok_json (overview_body ''Y''))
        (st (run switch_events init_world))) = [intro_turn]
   \<and> question (detail_settle False (ok_json (repo_body ''Y'')) (ok_json (overview_body ''Y''))
        (st (run switch_events init_world))) = []
   \<and> detail_fetched False (http_error 500 []) (ok_json (overview_body ''Y''))
      = Inl (Error (js ''Repo HTTP 500''))
   \<and> chat (detail_settle False (http_error 500 []) (ok_json (overview_body ''Y''))
        (st (run switch_events init_world))) = chat (st (run switch_events init_world))
   \<and> question (detail_settle False (http_error 500 []) (ok_json (overview_body ''Y''))
        (st (run switch_events init_world))) = js ''draft''
   \<and> chat (st (step (ClickBundle 0) (run switch_events init_world))) = chat (st (run switch_events init_world))"
proof -
  have a: "detail_fetched False (ok_json (repo_body ''Y'')) (ok_json (overview_body ''Y''))
      = Inr (repo_body ''Y'', overview_body ''Y'')"
    by (simp add: detail_fetched_def ok_json_def ok_def repo_body_def)
  have n: "show_nat 500 = ''500''" by code_simp
  have b: "detail_fetched False (http_error 500 []) (ok_json (overview_body ''Y''))
      = Inl (Error (js ''Repo HTTP 500''))"
    by (simp add: detail_fetched_def ok_json_def http_error_def ok_def n js_append [symmetric])
  have q: "question (st (run switch_events init_world)) = js ''draft''"
    by (simp add: switch_events_def model_defs)
  show ?thesis
    using a b q
      transcript_reset_on_joint_success [of False "ok_json (repo_body ''Y'')" "ok_json (overview_body ''Y'')"
        "repo_body ''Y''" "overview_body ''Y''" "st (run switch_events init_world)" net_error 0
        "run switch_events init_world"]
      transcript_reset_on_joint_success [of False "http_error 500 []" "ok_json (overview_body ''Y'')"
        JNull JNull "st (run switch_events init_world)" "Error (js ''Repo HTTP 500'')" 0
        "run switch_events init_world"]
    by simp
qed

subsection \<open>C6: citations\<close>



subsection \<open>C7: a chat request that fails\<close>



subsection \<open>C8: a detail request that fails\<close>




subsection \<open>C9: a list request that fails\<close>

text \<open>
  C9: when a list fetch fails (a network error or a status outside 200 to 299) the
  displayed list becomes empty, the error slot is set to \<open>Failed to load bundles: \<close>
  followed by the reason (the message of the rejection, or \<open>Bundles HTTP\<close> and the
  status), and the selection is not changed.
\<close>

theorem list_failure_clears_list:
  assumes "failed fr"
  shows "bundles (bundles_settle sel fr s) = [] \<and> selected (bundles_settle sel fr s) = selected s
       \<and> (\<forall>e. fr = Rejected e \<longrightarrow>
            err (bundles_settle sel fr s) = Some (js ''Failed to load bundles: '' @ err_text e))
       \<and> (\<forall>res. fr = Response res \<longrightarrow>
            err (bundles_settle sel fr s)
              = Some (js ''Failed to load bundles: Bundles HTTP '' @ js (show_nat (status res))))
       \<and> (i < length (inflight w) \<and> inflight w ! i = ListReq sel u \<longrightarrow>
            selected (st (step (Settle i (One fr)) w)) = selected (st w))"
  using assms
  by (cases fr)
    (simp_all add: failed_def bundles_settle_def bundles_fetched_def err_text_Error step_settle_list
      js_append_assoc)

text \<open>The theorem of C9 at a run in which \<open>A\<close> is selected and the list is displayed: the
  refetch started by a search text returns status 503, or the network fails.\<close>

theorem list_failure_clears_list_witness:
  "failed (http_error 503 ''busy'') \<and> failed (Rejected net_error)
   \<and> 1 < length (inflight (run refilter_events init_world))
   \<and> inflight (run refilter_events init_world) ! 1
        = ListReq (JStr (js ''A'')) (bundles_url (init_state\<lparr>q := js ''a''\<rparr>))
   \<and> bundles (st (run refilter_events init_world)) = [a_bundle ''A'', a_bundle ''B'']
   \<and> selected (st (run refilter_events init_world)) = JStr (js ''A'')
   \<and> bundles (bundles_settle (JStr (js ''A'')) (http_error 503 ''busy'') (st (run refilter_events init_world))) = []
   \<and> selected (bundles_settle (JStr (js ''A'')) (http_error 503 ''busy'') (st (run refilter_events init_world)))
        = JStr (js ''A'')
   \<and> err (bundles_settle (JStr (js ''A'')) (http_error 503 ''busy'') (st (run refilter_events init_world)))
        = Some (js ''Failed to load bundles: Bundles HTTP 503'')
   \<and> err (bundles_settle (JStr (js ''A'')) (Rejected net_error) (st (run refilter_events init_world)))
        = Some (js ''Failed to load bundles: Failed to fetch'')
   \<and> selected (st (step (Settle 1 (One (http_error 503 ''busy''))) (run refilter_events init_world)))
        = JStr (js ''A'')"
proof -
  have f: "failed (http_error 503 ''busy'')" by (simp add: failed_def http_error_def ok_def)
  have g: "failed (Rejected net_error)" by (simp add: failed_def)
  have n: "show_nat 503 = ''503''" by code_simp
  have t: "err_text net_error = js ''Failed to fetch''" by (simp add: err_text_def net_error_def)
  have w: "1 < length (inflight (run refilter_events init_world))
     \<and> inflight (run refilter_events init_world) ! 1
          = ListReq (JStr (js ''A'')) (bundles_url (init_state\<lparr>q := js ''a''\<rparr>))
     \<and> bundles (st (run refilter_events init_world)) = [a_bundle ''A'', a_bundle ''B'']
     \<and> selected (st (run refilter_events init_world)) = JStr (js ''A'')"
    by (simp add: refilter_events_def model_defs)
  show ?thesis
    using f g n t w
      list_failure_clears_list [OF f, of "JStr (js ''A'')" "st (run refilter_events init_world)" 1
        "run refilter_events init_world" "bundles_url (init_state\<lparr>q := js ''a''\<rparr>)"]
      list_failure_clears_list [OF g, of "JStr (js ''A'')" "st (run refilter_events init_world)" 1
        "run refilter_events init_world" "bundles_url (init_state\<lparr>q := js ''a''\<rparr>)"]
    by (simp add: http_error_def js_append [symmetric])
qed

subsection \<open>C10: asking with nothing selected\<close>

text \<open>
  C10: \<open>ask(text)\<close> called while no bundle is selected returns at once. It issues no
  request and leaves every cell as it was: no user turn, no pending flag, no change of
  the error slot. As an event of the page it changes nothing, the requests in flight
  included.
\<close>

theorem ask_without_selection:
  assumes "\<not> truthy sel"
  shows "ask sel t s = (s, None) \<and> (selected (st w) = sel \<longrightarrow> step (Ask t) w = w)"
  using assms by (simp add: ask_def step_def handle_def effects_def)

text \<open>The theorem of C10 at the first render, where \<open>selected\<close> is \<open>null\<close>.\<close>

theorem ask_without_selection_witness:
  "\<not> truthy JNull \<and> selected (st init_world) = JNull
   \<and> ask JNull (js ''hi'') init_state = (init_state, None)
   \<and> step (Ask (js ''hi'')) init_world = init_world"
proof -
  have h: "\<not> truthy JNull" by simp
  have s: "selected (st init_world) = JNull" by (simp add: model_defs)
  show ?thesis
    using h s ask_without_selection [OF h, of "js ''hi''" init_state init_world] by simp
qed

end
